theory Spec2Isabelle
  imports Complex_Main
begin

section \<open>Data model (expression\_evaluator.hpp)\<close>

text \<open>
  The evaluator of this development is the one whose functions the header declares
  (\<open>has_lower_precedence\<close>, \<open>infix_to_postfix\<close>, \<open>is_number\<close>, \<open>operator_to_enum\<close>,
  \<open>apply_operator\<close>, \<open>evaluate\<close>): the translation unit with parenthesis support and the
  division guard. The repository holds a second, older copy of the same functions
  (\<open>expression_evaluator.cpp\<close>, with \<open>Operator_to_enum\<close> and \<open>apply_Operator\<close>), which has
  neither; its functions follow below with the suffix \<open>_legacy\<close> where the names clash.

  Every \<open>throw\<close> of the source is a value of \<open>error\<close>; a function that can throw returns
  \<open>error + 'a\<close> with \<open>Inl\<close> for the exception. The constructors follow the messages of the
  \<open>std::runtime_error\<close>s:
  \<^item> \<open>EmptyExpression\<close>: "Empty expression";
  \<^item> \<open>MismatchedParentheses\<close>: "Mismatched parentheses";
  \<^item> \<open>InvalidOperator op\<close>: "Invalid operator: " + op;
  \<^item> \<open>InvalidNumber token\<close>: "Invalid number: " + token;
  \<^item> \<open>NumberOutOfRange token\<close>: "Number out of range: " + token;
  \<^item> \<open>InsufficientOperands\<close>: "Invalid expression: not enough operands" and
    "Not enough operands to perform operation";
  \<^item> \<open>DivisionByZero\<close>: "Division by zero";
  \<^item> \<open>MalformedExpression\<close>: "Invalid expression: too many operands".

  Four outcomes are not \<open>runtime_error\<close>s of the source:
  \<^item> \<open>KeyNotFound k\<close>: the \<open>std::out_of_range\<close> that \<open>operator_properties.at(k)\<close> throws for
    a key that is not in the table;
  \<^item> \<open>OutOfBounds pos\<close>: a read \<open>expression[pos]\<close> with \<open>pos > expression.length()\<close>, which
    is undefined behaviour of \<open>std::string::operator[]\<close>; the model stops there;
  \<^item> \<open>NotDecimal token\<close>: \<open>std::stod\<close> accepts the token as an infinity, a NaN or a
    hexadecimal literal; these values are not represented here (see \<open>stod\<close>);
  \<^item> \<open>NonFinite\<close>: \<open>std::pow\<close>, or the unguarded division of the older copy, returns an
    infinity or a NaN and the source goes on computing with it, without any exception;
    the model, whose numbers are real, stops (see \<open>pow\<close> and \<open>apply_Operator\<close>).
  The \<open>default:\<close> branch of the \<open>switch\<close> in \<open>apply_operator\<close> ("Invalid Operator enum
  value") has no counterpart: the datatype \<open>Operator\<close> has exactly the five enumerators.
\<close>

datatype error =
    EmptyExpression
  | MismatchedParentheses
  | InvalidOperator string
  | InvalidNumber string
  | NumberOutOfRange string
  | InsufficientOperands
  | DivisionByZero
  | MalformedExpression
  | KeyNotFound string
  | OutOfBounds nat
  | NotDecimal string
  | NonFinite

record OperatorProperty =
  priority :: int
  left_associative :: bool

datatype Operator = Addition | Subtraction | Multiplication | Division | Exponentiation

text \<open>The table \<open>operator_properties\<close> and its throwing lookup \<open>.at\<close>.\<close>

definition operator_properties :: "string \<rightharpoonup> OperatorProperty" where
  "operator_properties = map_of
     [(''+'', \<lparr>priority = 1, left_associative = True\<rparr>),
      (''-'', \<lparr>priority = 1, left_associative = True\<rparr>),
      (''*'', \<lparr>priority = 2, left_associative = True\<rparr>),
      (''/'', \<lparr>priority = 2, left_associative = True\<rparr>),
      (''^'', \<lparr>priority = 3, left_associative = False\<rparr>)]"

definition operator_properties_at :: "string \<Rightarrow> error + OperatorProperty" where
  "operator_properties_at k =
     (case operator_properties k of None \<Rightarrow> Inl (KeyNotFound k) | Some p \<Rightarrow> Inr p)"

section \<open>Library functions the source calls\<close>

text \<open>
  \<open>std::size_t\<close> is taken to be 64 bits wide. Indices are natural numbers below \<open>2 ^ 64\<close>
  and \<open>size_t_sub\<close> is the subtraction of the type, which wraps around.
\<close>

definition size_t_sub :: "nat \<Rightarrow> nat \<Rightarrow> nat" where
  "size_t_sub a b = (a + 2 ^ 64 - b) mod 2 ^ 64"

text \<open>
  \<open>std::string::operator[]\<close>: a position below the length gives the character there, the
  position equal to the length gives the terminating null character, and any greater
  position is undefined behaviour.
\<close>

definition string_at :: "string \<Rightarrow> nat \<Rightarrow> error + char" where
  "string_at s pos =
     (if pos < length s then Inr (s ! pos)
      else if pos = length s then Inr (CHR 0x00)
      else Inl (OutOfBounds pos))"

text \<open>
  \<open>isdigit\<close> and \<open>isspace\<close> in the C locale. For a byte of \<open>0x80\<close> and above, where the
  source passes a \<open>char\<close> that may be negative, both answer false.
\<close>

definition isdigit :: "char \<Rightarrow> bool" where
  "isdigit c = (c \<in> set ''0123456789'')"

definition isspace :: "char \<Rightarrow> bool" where
  "isspace c = (c \<in> set [CHR '' '', CHR 0x09, CHR 0x0A, CHR 0x0B, CHR 0x0C, CHR 0x0D])"

definition tolower :: "char \<Rightarrow> char" where
  "tolower c = (let n = (of_char c :: nat) in if 65 \<le> n \<and> n \<le> 90 then char_of (n + 32) else c)"

text \<open>
  A \<open>double\<close> is modelled by the real number it denotes. Rounding and overflow of the
  arithmetic are outside this model; the only range check kept is the one the source
  catches, a literal beyond \<open>DBL_MAX\<close>. At the inputs evaluated below every literal and
  every intermediate result is an integer far below \<open>2 ^ 53\<close>, where binary64 arithmetic is
  exact. Where a value has been rounded the two can differ: a test such as \<open>num1 == 0.0\<close> is
  the test on the exact real here, so nothing below is stated about inputs whose literals
  or intermediate results are not exact in binary64.
\<close>

type_synonym double = real

definition DBL_MAX :: real where
  "DBL_MAX = 2 ^ 1024 - 2 ^ 971"

definition digits_value :: "string \<Rightarrow> nat" where
  "digits_value ds = foldl (\<lambda>a c. 10 * a + (of_char c - 48)) 0 ds"

definition strip_sign :: "string \<Rightarrow> bool \<times> string" where
  "strip_sign s =
     (case s of
        [] \<Rightarrow> (False, [])
      | c # r \<Rightarrow>
          if c = CHR ''-'' then (True, r)
          else if c = CHR ''+'' then (False, r)
          else (False, s))"

definition exponent_part :: "string \<Rightarrow> int" where
  "exponent_part s =
     (case s of
        [] \<Rightarrow> 0
      | c # r \<Rightarrow>
          if c = CHR ''e'' \<or> c = CHR ''E'' then
            (let (neg, ds) = strip_sign r; e = takeWhile isdigit ds
             in if e = [] then 0
                else if neg then - int (digits_value e) else int (digits_value e))
          else 0)"

definition special_form :: "string \<Rightarrow> bool" where
  "special_form s =
     (map tolower (take 3 s) = ''inf'' \<or> map tolower (take 3 s) = ''nan''
      \<or> map tolower (take 2 s) = ''0x'')"

text \<open>
  \<open>std::stod\<close> inside the \<open>try\<close> block of \<open>evaluate\<close>, with the two \<open>catch\<close> clauses folded
  in. As \<open>strtod\<close> does, it skips leading white space, reads an optional sign and then the
  longest prefix of the form digits, optional \<open>.\<close>, digits, optional exponent; what
  follows the prefix is ignored. No digit at all is \<open>std::invalid_argument\<close>
  (\<open>InvalidNumber\<close>), a magnitude beyond \<open>DBL_MAX\<close> is \<open>std::out_of_range\<close>
  (\<open>NumberOutOfRange\<close>); the range error of a literal too small for a \<open>double\<close> is not
  modelled. A token whose text after the sign starts with \<open>inf\<close>, \<open>nan\<close> or \<open>0x\<close> (in any
  case) is left to \<open>NotDecimal\<close>.
\<close>

definition stod :: "string \<Rightarrow> error + double" where
  "stod token =
     (let (neg, s1) = strip_sign (dropWhile isspace token);
          ip = takeWhile isdigit s1;
          s2 = dropWhile isdigit s1;
          fp = (case s2 of [] \<Rightarrow> [] | c # r \<Rightarrow> if c = CHR ''.'' then takeWhile isdigit r else []);
          s3 = (case s2 of [] \<Rightarrow> [] | c # r \<Rightarrow> if c = CHR ''.'' then dropWhile isdigit r else s2)
      in if special_form s1 then Inl (NotDecimal token)
         else if ip = [] \<and> fp = [] then Inl (InvalidNumber token)
         else
           (let v = (if neg then - 1 else 1)
                    * (real (digits_value (ip @ fp)) / 10 ^ length fp)
                    * 10 powi exponent_part s3
            in if DBL_MAX < \<bar>v\<bar> then Inl (NumberOutOfRange token) else Inr v))"

text \<open>
  \<open>std::pow\<close> on the reals: an integral exponent is repeated multiplication (or its
  inverse), any other exponent is the real power. Where \<open>std::pow\<close> returns an infinity
  (zero to a negative power) or a NaN (a negative base with an exponent that is not
  integral) the model stops with \<open>NonFinite\<close>.
\<close>

definition pow :: "double \<Rightarrow> double \<Rightarrow> error + double" where
  "pow x y =
     (if y = of_int \<lfloor>y\<rfloor> then
        (if x = 0 \<and> y < 0 then Inl NonFinite else Inr (x powi \<lfloor>y\<rfloor>))
      else if x < 0 then Inl NonFinite
      else Inr (x powr y))"

text \<open>
  Modelled from the spec: \<open>reverse_stack\<close> is called by \<open>infix_to_postfix\<close> and defined in
  none of the source files. The specification says that the output collected during the
  scan is reversed once at the end, so that the evaluator reads it in the order in which
  the tokens were emitted. A \<open>std::stack\<close> is a list whose head is the top.
\<close>

definition reverse_stack :: "'a list \<Rightarrow> 'a list" where
  "reverse_stack s = rev s"

section \<open>The converter\<close>

definition has_lower_precedence :: "string \<Rightarrow> string \<Rightarrow> error + bool" where
  "has_lower_precedence op1_str op2_str =
     (if op1_str = ''('' \<or> op2_str = ''('' \<or> op1_str = '')'' \<or> op2_str = '')'' then Inr False
      else
        (case operator_properties_at op1_str of
           Inl e \<Rightarrow> Inl e
         | Inr op1 \<Rightarrow>
             (case operator_properties_at op2_str of
                Inl e \<Rightarrow> Inl e
              | Inr op2 \<Rightarrow>
                  if priority op1 = priority op2 then Inr (left_associative op1)
                  else Inr (priority op1 < priority op2))))"

text \<open>The local variables of \<open>infix_to_postfix\<close>; both stacks have their top at the head.\<close>

record scan_state =
  "output" :: "string list"
  Operators :: "string list"
  current_num :: string
  previous_num :: bool

text \<open>
  The loop of the \<open>)\<close> branch:
  \<^verbatim>\<open>while (!Operators.empty() && Operators.top() != "(")\<close>.
\<close>

fun pop_until_paren :: "string list \<Rightarrow> string list \<Rightarrow> string list \<times> string list" where
  "pop_until_paren out [] = (out, [])"
| "pop_until_paren out (t # ops) =
     (if t \<noteq> ''('' then pop_until_paren (t # out) ops else (out, t # ops))"

text \<open>
  The loop of the operator branch:
  \<^verbatim>\<open>while (!Operators.empty() && Operators.top() != "(" && has_lower_precedence(op, Operators.top()))\<close>.
\<close>

fun pop_lower_precedence ::
  "string \<Rightarrow> string list \<Rightarrow> string list \<Rightarrow> error + (string list \<times> string list)" where
  "pop_lower_precedence op out [] = Inr (out, [])"
| "pop_lower_precedence op out (t # ops) =
     (if t \<noteq> ''('' then
        (case has_lower_precedence op t of
           Inl e \<Rightarrow> Inl e
         | Inr b \<Rightarrow> if b then pop_lower_precedence op (t # out) ops else Inr (out, t # ops))
      else Inr (out, t # ops))"

text \<open>The final loop: \<^verbatim>\<open>while (!Operators.empty())\<close>.\<close>

fun push_rest :: "string list \<Rightarrow> string list \<Rightarrow> string list" where
  "push_rest out [] = out"
| "push_rest out (t # ops) = push_rest (t # out) ops"

text \<open>
  The test \<^verbatim>\<open>i - 1 < 0 || !isdigit(expression[i-1])\<close>. The index \<open>i\<close> is a
  \<open>std::size_t\<close>, so \<open>i - 1\<close> is computed in that type and the comparison with \<open>0\<close> is one of
  unsigned numbers. The right operand of \<open>||\<close> is evaluated only when the left one is false.
\<close>

definition is_unary :: "string \<Rightarrow> nat \<Rightarrow> error + bool" where
  "is_unary expression i =
     (if size_t_sub i 1 < 0 then Inr True
      else
        (case string_at expression (size_t_sub i 1) of
           Inl e \<Rightarrow> Inl e
         | Inr p \<Rightarrow> Inr (\<not> isdigit p)))"

text \<open>One iteration of the \<open>for\<close> loop, at index \<open>i\<close>.\<close>

definition scan_char :: "string \<Rightarrow> nat \<Rightarrow> scan_state \<Rightarrow> error + scan_state" where
  "scan_char expression i st =
     (case string_at expression i of
        Inl e \<Rightarrow> Inl e
      | Inr current_char \<Rightarrow>
          if isdigit current_char \<or> current_char = CHR ''.'' \<or> current_char = CHR '','' then
            Inr (st\<lparr>current_num :=
                       current_num st @ [if current_char = CHR '','' then CHR ''.'' else current_char],
                     previous_num := True\<rparr>)
          else if current_char = CHR ''('' then
            Inr (st\<lparr>Operators := ''('' # Operators st\<rparr>)
          else if current_char = CHR '')'' then
            (let st1 = (if current_num st \<noteq> []
                        then st\<lparr>output := current_num st # output st, current_num := []\<rparr>
                        else st);
                 (out, ops) = pop_until_paren (output st1) (Operators st1)
             in if ops \<noteq> [] then Inr (st1\<lparr>output := out, Operators := tl ops\<rparr>)
                else Inl MismatchedParentheses)
          else if current_char \<noteq> CHR '' '' then
            (case is_unary expression i of
               Inl e \<Rightarrow> Inl e
             | Inr unary \<Rightarrow>
                 if unary then Inr (st\<lparr>current_num := current_num st @ [current_char]\<rparr>)
                 else
                   (let st1 = (if previous_num st
                               then st\<lparr>output := current_num st # output st,
                                       current_num := [], previous_num := False\<rparr>
                               else st);
                        op = [current_char]
                    in case pop_lower_precedence op (output st1) (Operators st1) of
                         Inl e \<Rightarrow> Inl e
                       | Inr (out, ops) \<Rightarrow> Inr (st1\<lparr>output := out, Operators := op # ops\<rparr>)))
          else Inr st)"

text \<open>The \<open>for\<close> loop: \<^verbatim>\<open>for (std::size_t i = 0; i < expression.length(); ++i)\<close>.\<close>

function scan_from :: "string \<Rightarrow> nat \<Rightarrow> scan_state \<Rightarrow> error + scan_state" where
  "scan_from expression i st =
     (if i < length expression then
        (case scan_char expression i st of
           Inl e \<Rightarrow> Inl e
         | Inr st' \<Rightarrow> scan_from expression (Suc i) st')
      else Inr st)"
  by pat_completeness auto
termination
  by (relation "measure (\<lambda>(expression, i, st). length expression - i)") auto

declare scan_from.simps [simp del]

definition infix_to_postfix :: "string \<Rightarrow> error + string list" where
  "infix_to_postfix expression =
     (case scan_from expression 0
             \<lparr>output = [], Operators = [], current_num = [], previous_num = False\<rparr> of
        Inl e \<Rightarrow> Inl e
      | Inr st \<Rightarrow>
          (let out = (if current_num st \<noteq> [] then current_num st # output st else output st)
           in Inr (reverse_stack (push_rest out (Operators st)))))"

section \<open>The evaluator\<close>

definition is_number :: "string \<Rightarrow> bool" where
  "is_number s = (\<exists>c \<in> set s. c \<in> set ''0123456789.'')"

definition operator_to_enum :: "string \<Rightarrow> error + Operator" where
  "operator_to_enum op =
     (if op = ''+'' then Inr Addition
      else if op = ''-'' then Inr Subtraction
      else if op = ''*'' then Inr Multiplication
      else if op = ''/'' then Inr Division
      else if op = ''^'' then Inr Exponentiation
      else Inl (InvalidOperator op))"

text \<open>
  \<open>apply_operator\<close> pops \<open>num1\<close> (the top) and then \<open>num2\<close>, and pushes the result. The
  operand stack is returned instead of being updated in place.
\<close>

fun apply_operator :: "double list \<Rightarrow> Operator \<Rightarrow> error + double list" where
  "apply_operator (num1 # num2 # result) op =
     (case op of
        Addition \<Rightarrow> Inr ((num2 + num1) # result)
      | Subtraction \<Rightarrow> Inr ((num2 - num1) # result)
      | Multiplication \<Rightarrow> Inr ((num2 * num1) # result)
      | Division \<Rightarrow> if num1 = 0 then Inl DivisionByZero else Inr ((num2 / num1) # result)
      | Exponentiation \<Rightarrow>
          (case pow num2 num1 of Inl e \<Rightarrow> Inl e | Inr v \<Rightarrow> Inr (v # result)))"
| "apply_operator result op = Inl InsufficientOperands"

text \<open>
  The \<open>while\<close> loop of \<open>evaluate\<close> over the postfix stack, whose top is the head of the
  list.
\<close>

fun eval_postfix :: "string list \<Rightarrow> double list \<Rightarrow> error + double list" where
  "eval_postfix [] result = Inr result"
| "eval_postfix (token # postfix_expr) result =
     (if is_number token then
        (case stod token of
           Inl e \<Rightarrow> Inl e
         | Inr v \<Rightarrow> eval_postfix postfix_expr (v # result))
      else if length result < 2 then Inl InsufficientOperands
      else
        (case operator_to_enum token of
           Inl e \<Rightarrow> Inl e
         | Inr op \<Rightarrow>
             (case apply_operator result op of
                Inl e \<Rightarrow> Inl e
              | Inr result' \<Rightarrow> eval_postfix postfix_expr result')))"

definition evaluate :: "string \<Rightarrow> error + double" where
  "evaluate expression =
     (if expression = [] then Inl EmptyExpression
      else
        (case infix_to_postfix expression of
           Inl e \<Rightarrow> Inl e
         | Inr postfix_expr \<Rightarrow>
             (case eval_postfix postfix_expr [] of
                Inl e \<Rightarrow> Inl e
              | Inr result \<Rightarrow>
                  if length result \<noteq> 1 then Inl MalformedExpression else Inr (hd result))))"

section \<open>Runs that go on after the read before the string\<close>

text \<open>
  \<open>is_unary\<close> stops where the source reads \<open>expression[i-1]\<close> beyond the end of the string.
  A build without bounds checks does not stop there: it finds some byte and goes on. The
  functions of this section are the converter and the evaluator of such a run. \<open>stray\<close> is
  the byte that the out-of-range read finds; everything else is as above.
\<close>

definition is_unary_stray :: "char \<Rightarrow> string \<Rightarrow> nat \<Rightarrow> bool" where
  "is_unary_stray stray expression i =
     (if size_t_sub i 1 < 0 then True
      else
        (case string_at expression (size_t_sub i 1) of
           Inl e \<Rightarrow> \<not> isdigit stray
         | Inr p \<Rightarrow> \<not> isdigit p))"

definition scan_char_stray :: "char \<Rightarrow> string \<Rightarrow> nat \<Rightarrow> scan_state \<Rightarrow> error + scan_state" where
  "scan_char_stray stray expression i st =
     (case string_at expression i of
        Inl e \<Rightarrow> Inl e
      | Inr current_char \<Rightarrow>
          if isdigit current_char \<or> current_char = CHR ''.'' \<or> current_char = CHR '','' then
            Inr (st\<lparr>current_num :=
                       current_num st @ [if current_char = CHR '','' then CHR ''.'' else current_char],
                     previous_num := True\<rparr>)
          else if current_char = CHR ''('' then
            Inr (st\<lparr>Operators := ''('' # Operators st\<rparr>)
          else if current_char = CHR '')'' then
            (let st1 = (if current_num st \<noteq> []
                        then st\<lparr>output := current_num st # output st, current_num := []\<rparr>
                        else st);
                 (out, ops) = pop_until_paren (output st1) (Operators st1)
             in if ops \<noteq> [] then Inr (st1\<lparr>output := out, Operators := tl ops\<rparr>)
                else Inl MismatchedParentheses)
          else if current_char \<noteq> CHR '' '' then
            (if is_unary_stray stray expression i
             then Inr (st\<lparr>current_num := current_num st @ [current_char]\<rparr>)
             else
               (let st1 = (if previous_num st
                           then st\<lparr>output := current_num st # output st,
                                   current_num := [], previous_num := False\<rparr>
                           else st);
                    op = [current_char]
                in case pop_lower_precedence op (output st1) (Operators st1) of
                     Inl e \<Rightarrow> Inl e
                   | Inr (out, ops) \<Rightarrow> Inr (st1\<lparr>output := out, Operators := op # ops\<rparr>)))
          else Inr st)"

function scan_from_stray :: "char \<Rightarrow> string \<Rightarrow> nat \<Rightarrow> scan_state \<Rightarrow> error + scan_state" where
  "scan_from_stray stray expression i st =
     (if i < length expression then
        (case scan_char_stray stray expression i st of
           Inl e \<Rightarrow> Inl e
         | Inr st' \<Rightarrow> scan_from_stray stray expression (Suc i) st')
      else Inr st)"
  by pat_completeness auto
termination
  by (relation "measure (\<lambda>(stray, expression, i, st). length expression - i)") auto

declare scan_from_stray.simps [simp del]

definition infix_to_postfix_stray :: "char \<Rightarrow> string \<Rightarrow> error + string list" where
  "infix_to_postfix_stray stray expression =
     (case scan_from_stray stray expression 0
             \<lparr>output = [], Operators = [], current_num = [], previous_num = False\<rparr> of
        Inl e \<Rightarrow> Inl e
      | Inr st \<Rightarrow>
          (let out = (if current_num st \<noteq> [] then current_num st # output st else output st)
           in Inr (reverse_stack (push_rest out (Operators st)))))"

definition evaluate_stray :: "char \<Rightarrow> string \<Rightarrow> error + double" where
  "evaluate_stray stray expression =
     (if expression = [] then Inl EmptyExpression
      else
        (case infix_to_postfix_stray stray expression of
           Inl e \<Rightarrow> Inl e
         | Inr postfix_expr \<Rightarrow>
             (case eval_postfix postfix_expr [] of
                Inl e \<Rightarrow> Inl e
              | Inr result \<Rightarrow>
                  if length result \<noteq> 1 then Inl MalformedExpression else Inr (hd result))))"

section \<open>The older copy (expression\_evaluator.cpp)\<close>

text \<open>
  The second translation unit defines the same functions without the parenthesis
  branches, without the \<open>try\<close> block around \<open>std::stod\<close> and without the division guard.
  \<open>is_number\<close>, \<open>reverse_stack\<close> and the unary test are the same and are shared.
\<close>

definition has_lower_precedence_legacy :: "string \<Rightarrow> string \<Rightarrow> error + bool" where
  "has_lower_precedence_legacy op1_str op2_str =
     (case operator_properties_at op1_str of
        Inl e \<Rightarrow> Inl e
      | Inr op1 \<Rightarrow>
          (case operator_properties_at op2_str of
             Inl e \<Rightarrow> Inl e
           | Inr op2 \<Rightarrow>
               if priority op1 = priority op2 then Inr (left_associative op1)
               else Inr (priority op1 < priority op2)))"

text \<open>
  The loop of the operator branch:
  \<^verbatim>\<open>while (!Operators.empty() && has_lower_precedence(op, Operators.top()))\<close>.
\<close>

fun pop_lower_precedence_legacy ::
  "string \<Rightarrow> string list \<Rightarrow> string list \<Rightarrow> error + (string list \<times> string list)" where
  "pop_lower_precedence_legacy op out [] = Inr (out, [])"
| "pop_lower_precedence_legacy op out (t # ops) =
     (case has_lower_precedence_legacy op t of
        Inl e \<Rightarrow> Inl e
      | Inr b \<Rightarrow> if b then pop_lower_precedence_legacy op (t # out) ops else Inr (out, t # ops))"

definition scan_char_legacy :: "string \<Rightarrow> nat \<Rightarrow> scan_state \<Rightarrow> error + scan_state" where
  "scan_char_legacy expression i st =
     (case string_at expression i of
        Inl e \<Rightarrow> Inl e
      | Inr current_char \<Rightarrow>
          if isdigit current_char \<or> current_char = CHR ''.'' \<or> current_char = CHR '','' then
            Inr (st\<lparr>current_num :=
                       current_num st @ [if current_char = CHR '','' then CHR ''.'' else current_char],
                     previous_num := True\<rparr>)
          else if current_char \<noteq> CHR '' '' then
            (case is_unary expression i of
               Inl e \<Rightarrow> Inl e
             | Inr unary \<Rightarrow>
                 if unary then Inr (st\<lparr>current_num := current_num st @ [current_char]\<rparr>)
                 else
                   (let st1 = (if previous_num st
                               then st\<lparr>output := current_num st # output st,
                                       current_num := [], previous_num := False\<rparr>
                               else st);
                        op = [current_char]
                    in case pop_lower_precedence_legacy op (output st1) (Operators st1) of
                         Inl e \<Rightarrow> Inl e
                       | Inr (out, ops) \<Rightarrow> Inr (st1\<lparr>output := out, Operators := op # ops\<rparr>)))
          else Inr st)"

function scan_from_legacy :: "string \<Rightarrow> nat \<Rightarrow> scan_state \<Rightarrow> error + scan_state" where
  "scan_from_legacy expression i st =
     (if i < length expression then
        (case scan_char_legacy expression i st of
           Inl e \<Rightarrow> Inl e
         | Inr st' \<Rightarrow> scan_from_legacy expression (Suc i) st')
      else Inr st)"
  by pat_completeness auto
termination
  by (relation "measure (\<lambda>(expression, i, st). length expression - i)") auto

declare scan_from_legacy.simps [simp del]

definition infix_to_postfix_legacy :: "string \<Rightarrow> error + string list" where
  "infix_to_postfix_legacy expression =
     (case scan_from_legacy expression 0
             \<lparr>output = [], Operators = [], current_num = [], previous_num = False\<rparr> of
        Inl e \<Rightarrow> Inl e
      | Inr st \<Rightarrow>
          (let out = (if current_num st \<noteq> [] then current_num st # output st else output st)
           in Inr (reverse_stack (push_rest out (Operators st)))))"

definition Operator_to_enum :: "string \<Rightarrow> error + Operator" where
  "Operator_to_enum op =
     (if op = ''+'' then Inr Addition
      else if op = ''-'' then Inr Subtraction
      else if op = ''*'' then Inr Multiplication
      else if op = ''/'' then Inr Division
      else if op = ''^'' then Inr Exponentiation
      else Inl (InvalidOperator op))"

text \<open>
  \<open>apply_Operator\<close> divides without a test: \<^verbatim>\<open>result.push(num2/num1)\<close>. With a
  divisor of zero the quotient of two doubles is an infinity or a NaN, which is pushed
  like any other value and no exception is thrown; that outcome is \<open>NonFinite\<close> here.
\<close>

fun apply_Operator :: "double list \<Rightarrow> Operator \<Rightarrow> error + double list" where
  "apply_Operator (num1 # num2 # result) op =
     (case op of
        Addition \<Rightarrow> Inr ((num2 + num1) # result)
      | Subtraction \<Rightarrow> Inr ((num2 - num1) # result)
      | Multiplication \<Rightarrow> Inr ((num2 * num1) # result)
      | Division \<Rightarrow> if num1 = 0 then Inl NonFinite else Inr ((num2 / num1) # result)
      | Exponentiation \<Rightarrow>
          (case pow num2 num1 of Inl e \<Rightarrow> Inl e | Inr v \<Rightarrow> Inr (v # result)))"
| "apply_Operator result op = Inl InsufficientOperands"

text \<open>
  The \<open>while\<close> loop of the older \<open>evaluate\<close>. \<open>std::stod\<close> is called outside any \<open>try\<close>
  block: \<open>InvalidNumber\<close> and \<open>NumberOutOfRange\<close> stand here for the \<open>std::invalid_argument\<close>
  and \<open>std::out_of_range\<close> that leave \<open>evaluate\<close> uncaught.
\<close>

fun eval_postfix_legacy :: "string list \<Rightarrow> double list \<Rightarrow> error + double list" where
  "eval_postfix_legacy [] result = Inr result"
| "eval_postfix_legacy (token # postfix_expr) result =
     (if is_number token then
        (case stod token of
           Inl e \<Rightarrow> Inl e
         | Inr v \<Rightarrow> eval_postfix_legacy postfix_expr (v # result))
      else if length result < 2 then Inl InsufficientOperands
      else
        (case Operator_to_enum token of
           Inl e \<Rightarrow> Inl e
         | Inr op \<Rightarrow>
             (case apply_Operator result op of
                Inl e \<Rightarrow> Inl e
              | Inr result' \<Rightarrow> eval_postfix_legacy postfix_expr result')))"

definition evaluate_legacy :: "string \<Rightarrow> error + double" where
  "evaluate_legacy expression =
     (case infix_to_postfix_legacy expression of
        Inl e \<Rightarrow> Inl e
      | Inr postfix_expr \<Rightarrow>
          if postfix_expr = [] then Inl EmptyExpression
          else
            (case eval_postfix_legacy postfix_expr [] of
               Inl e \<Rightarrow> Inl e
             | Inr result \<Rightarrow>
                 if length result \<noteq> 1 then Inl MalformedExpression else Inr (hd result)))"

section \<open>Evaluation of the definitions\<close>

text \<open>
  The equations that run the converter and the evaluator on a concrete string. The
  equation of the loop \<open>scan_from\<close> is not a default simplification rule; it is used here
  at explicit indices only.
\<close>

lemmas converter_defs = infix_to_postfix_def scan_from.simps scan_char_def string_at_def
  isdigit_def is_unary_def size_t_sub_def has_lower_precedence_def operator_properties_at_def
  operator_properties_def reverse_stack_def Let_def

lemmas evaluator_defs = evaluate_def is_number_def stod_def strip_sign_def special_form_def
  tolower_def digits_value_def exponent_part_def DBL_MAX_def operator_to_enum_def isspace_def
  pow_def

lemmas stray_defs = evaluate_stray_def infix_to_postfix_stray_def scan_from_stray.simps
  scan_char_stray_def is_unary_stray_def

lemmas legacy_defs = evaluate_legacy_def infix_to_postfix_legacy_def scan_from_legacy.simps
  scan_char_legacy_def has_lower_precedence_legacy_def Operator_to_enum_def

section \<open>Precedence and associativity\<close>

text \<open>
  Claim C1. \<open>evaluate\<close> applied to \<open>2+3*4\<close> returns 14: when \<open>*\<close> arrives, the \<open>+\<close> on the
  operator stack is not popped (\<open>has_lower_precedence\<close> of \<open>*\<close> against \<open>+\<close> is false, the
  priorities being 2 and 1), so the postfix form is \<open>2 3 4 * +\<close> and the multiplication is
  applied before the addition.
\<close>

theorem precedence_mul_over_add:
  "evaluate ''2+3*4'' = Inr 14
   \<and> infix_to_postfix ''2+3*4'' = Inr [''2'', ''3'', ''4'', ''*'', ''+'']
   \<and> has_lower_precedence ''*'' ''+'' = Inr False
   \<and> operator_properties ''*'' = Some \<lparr>priority = 2, left_associative = True\<rparr>
   \<and> operator_properties ''+'' = Some \<lparr>priority = 1, left_associative = True\<rparr>"
  by (simp add: converter_defs evaluator_defs)

text \<open>
  Claim C2. Subtraction and division group from left to right and keep the order of their
  operands: the operand pushed first is the left one, although it is popped second
  (\<open>num2\<close>). \<open>evaluate\<close> returns 5 on \<open>10-3-2\<close> and 1 on \<open>8/4/2\<close>.
\<close>

theorem left_associative_operand_order:
  "evaluate ''10-3-2'' = Inr 5
   \<and> evaluate ''8/4/2'' = Inr 1
   \<and> infix_to_postfix ''10-3-2'' = Inr [''10'', ''3'', ''-'', ''2'', ''-'']
   \<and> infix_to_postfix ''8/4/2'' = Inr [''8'', ''4'', ''/'', ''2'', ''/'']
   \<and> apply_operator (num1 # num2 # result) Subtraction = Inr ((num2 - num1) # result)
   \<and> apply_operator [4, 8] Division = Inr [2]"
  by (simp add: converter_defs evaluator_defs)

text \<open>
  Claim C3. Exponentiation is right-associative. For two operators of the table,
  \<open>has_lower_precedence op1 op2\<close> holds exactly when the priority of \<open>op1\<close> is lower, or the
  priorities tie and \<open>op1\<close> is left-associative; so on the tie of \<open>^\<close> with \<open>^\<close> the stack
  operator stays, and \<open>evaluate\<close> returns 512 on \<open>2^3^2\<close>.
\<close>

theorem exponentiation_right_associative:
  "evaluate ''2^3^2'' = Inr 512
   \<and> infix_to_postfix ''2^3^2'' = Inr [''2'', ''3'', ''2'', ''^'', ''^'']
   \<and> (operator_properties op1 = Some p1 \<and> operator_properties op2 = Some p2 \<longrightarrow>
        has_lower_precedence op1 op2 =
          Inr (priority p1 < priority p2
               \<or> (priority p1 = priority p2 \<and> left_associative p1)))"
proof (intro conjI impI)
  show "evaluate ''2^3^2'' = Inr 512"
    by (simp add: converter_defs evaluator_defs)
  show "infix_to_postfix ''2^3^2'' = Inr [''2'', ''3'', ''2'', ''^'', ''^'']"
    by (simp add: converter_defs)
next
  assume "operator_properties op1 = Some p1 \<and> operator_properties op2 = Some p2"
  then show "has_lower_precedence op1 op2 =
      Inr (priority p1 < priority p2 \<or> (priority p1 = priority p2 \<and> left_associative p1))"
    by (auto simp add: has_lower_precedence_def operator_properties_at_def
        operator_properties_def split: if_splits)
qed

theorem exponentiation_right_associative_witness:
  "evaluate ''2^3^2'' = Inr 512
   \<and> operator_properties ''^'' = Some \<lparr>priority = 3, left_associative = False\<rparr>
   \<and> has_lower_precedence ''^'' ''^'' = Inr False"
  using exponentiation_right_associative
    [of "''^''" "\<lparr>priority = 3, left_associative = False\<rparr>"
        "''^''" "\<lparr>priority = 3, left_associative = False\<rparr>"]
  by (simp add: operator_properties_def)

section \<open>Division by zero\<close>

text \<open>The errors of the older copy: none of its functions raises \<open>DivisionByZero\<close>.\<close>

lemma is_unary_error:
  "is_unary expression i = Inl e \<Longrightarrow> \<exists>pos. e = OutOfBounds pos"
  by (auto simp: is_unary_def string_at_def split: if_splits sum.splits)

lemma has_lower_precedence_legacy_error:
  "has_lower_precedence_legacy op t = Inl e \<Longrightarrow> \<exists>k. e = KeyNotFound k"
  by (auto simp: has_lower_precedence_legacy_def operator_properties_at_def
      split: sum.splits option.splits if_splits)

lemma pop_lower_precedence_legacy_error:
  "pop_lower_precedence_legacy op out ops = Inl e \<Longrightarrow> \<exists>k. e = KeyNotFound k"
proof (induction op out ops rule: pop_lower_precedence_legacy.induct)
  case (1 op out)
  then show ?case by simp
next
  case (2 op out t ops)
  then show ?case
    by (auto split: if_splits sum.splits dest: has_lower_precedence_legacy_error)
qed

lemma scan_char_legacy_error:
  "scan_char_legacy expression i st = Inl e \<Longrightarrow> e \<noteq> DivisionByZero"
  by (auto simp: scan_char_legacy_def string_at_def Let_def
      split: if_splits sum.splits prod.splits
      dest: pop_lower_precedence_legacy_error is_unary_error)

lemma scan_from_legacy_error:
  "scan_from_legacy expression i st = Inl e \<Longrightarrow> e \<noteq> DivisionByZero"
proof (induction expression i st rule: scan_from_legacy.induct)
  case (1 expression i st)
  show ?case
  proof (cases "i < length expression")
    case False
    with "1.prems" show ?thesis
      by (simp add: scan_from_legacy.simps [of expression i])
  next
    case True
    show ?thesis
    proof (cases "scan_char_legacy expression i st")
      case (Inl e')
      with True "1.prems" have "e = e'"
        by (simp add: scan_from_legacy.simps [of expression i])
      with Inl show ?thesis
        by (auto dest: scan_char_legacy_error)
    next
      case (Inr st')
      with True "1.prems" have "scan_from_legacy expression (Suc i) st' = Inl e"
        by (simp add: scan_from_legacy.simps [of expression i])
      then show ?thesis
        by (rule "1.IH" [OF True Inr])
    qed
  qed
qed

lemma stod_error: "stod token = Inl e \<Longrightarrow> e \<noteq> DivisionByZero"
  by (auto simp: stod_def Let_def split: if_splits prod.splits)

lemma apply_Operator_error: "apply_Operator result op = Inl e \<Longrightarrow> e \<noteq> DivisionByZero"
  by (cases "(result, op)" rule: apply_Operator.cases)
     (auto simp: pow_def split: Operator.splits if_splits sum.splits)

lemma eval_postfix_legacy_error:
  "eval_postfix_legacy postfix_expr result = Inl e \<Longrightarrow> e \<noteq> DivisionByZero"
proof (induction postfix_expr result rule: eval_postfix_legacy.induct)
  case (1 result)
  then show ?case by simp
next
  case (2 token postfix_expr result)
  then show ?case
    by (auto simp: Operator_to_enum_def split: if_splits sum.splits
        dest: stod_error apply_Operator_error)
qed

lemma evaluate_legacy_never_division_by_zero:
  "evaluate_legacy expression \<noteq> Inl DivisionByZero"
  by (auto simp: evaluate_legacy_def infix_to_postfix_legacy_def Let_def
      split: sum.splits if_splits
      dest: scan_from_legacy_error eval_postfix_legacy_error)

text \<open>On the expressions of claims C1 to C3 the older copy returns the same values.\<close>

lemma evaluate_legacy_examples:
  "evaluate_legacy ''2+3*4'' = Inr 14
   \<and> evaluate_legacy ''10-3-2'' = Inr 5
   \<and> evaluate_legacy ''8/4/2'' = Inr 1
   \<and> evaluate_legacy ''2^3^2'' = Inr 512"
  by (simp add: converter_defs evaluator_defs legacy_defs)

text \<open>
  Claim C4 says that whenever a division is applied with a right operand of exactly 0,
  \<open>evaluate\<close> fails with \<open>DivisionByZero\<close>, in particular on \<open>1/0\<close>. The repository applies
  the division in two places. \<open>apply_operator\<close> tests \<open>num1 == 0.0\<close> first and throws
  "Division by zero", and its \<open>evaluate\<close> fails so on \<open>1/0\<close>. \<open>apply_Operator\<close> of the older
  copy has no test: on \<open>1/0\<close> its \<open>evaluate\<close> converts to the same postfix form \<open>1 0 /\<close>,
  divides, and returns the infinity as the result, with no exception.
\<close>

theorem unguarded_division:
  "evaluate_legacy ''1/0'' = Inl NonFinite
   \<and> infix_to_postfix_legacy ''1/0'' = Inr [''1'', ''0'', ''/'']
   \<and> apply_Operator (0 # num2 # result) Division = Inl NonFinite
   \<and> evaluate ''1/0'' = Inl DivisionByZero
   \<and> infix_to_postfix ''1/0'' = Inr [''1'', ''0'', ''/'']
   \<and> apply_operator (0 # num2 # result) Division = Inl DivisionByZero"
  by (simp add: converter_defs evaluator_defs legacy_defs)

section \<open>Parentheses\<close>

text \<open>
  Claim C5 says that \<open>evaluate\<close> fails with \<open>MismatchedParentheses\<close> on \<open>(1+2\<close>. The code
  raises that error only in the \<open>)\<close> branch. An opening parenthesis left on the operator
  stack is pushed to the output by the final loop like an operator, the postfix form is
  \<open>1 2 + (\<close>, and the evaluator fails on the token \<open>(\<close> with "Invalid expression: not enough
  operands".
\<close>

theorem unclosed_parenthesis:
  "infix_to_postfix ''(1+2'' = Inr [''1'', ''2'', ''+'', ''(''] 
   \<and> evaluate ''(1+2'' = Inl InsufficientOperands"
  by (simp add: converter_defs evaluator_defs)

text \<open>
  Claim C6 says that \<open>evaluate\<close> returns 20 on \<open>(2+3)*4\<close>. In the code the character before
  \<open>*\<close> is \<open>)\<close>, which is not a digit, so \<open>*\<close> is taken for a unary sign and glued to the
  next literal: the postfix form is \<open>2 3 + *4\<close> and \<open>std::stod\<close> rejects the token \<open>*4\<close>
  ("Invalid number").
\<close>

theorem operator_after_closing_parenthesis:
  "infix_to_postfix ''(2+3)*4'' = Inr [''2'', ''3'', ''+'', ''*4'']
   \<and> evaluate ''(2+3)*4'' = Inl (InvalidNumber ''*4'')"
  by (simp add: converter_defs evaluator_defs)

section \<open>The lookback of the unary test\<close>

lemma size_t_sub_pos:
  assumes "0 < i" and "i < 2 ^ 64"
  shows "size_t_sub i 1 = i - 1"
proof -
  have "i + 2 ^ 64 - 1 = (i - 1) + 2 ^ 64"
    using assms(1) by simp
  then have "size_t_sub i 1 = ((i - 1) + 2 ^ 64) mod 2 ^ 64"
    by (simp only: size_t_sub_def)
  also have "\<dots> = (i - 1) mod 2 ^ 64"
    by (rule mod_add_self2)
  also have "\<dots> = i - 1"
    using assms(2) by (intro mod_less) simp
  finally show ?thesis .
qed

text \<open>From the second character on, the lookback reads the character before.\<close>

lemma lookback_in_bounds:
  assumes "0 < i" and "i < length expression" and "length expression < 2 ^ 64"
  shows "is_unary expression i = Inr (\<not> isdigit (expression ! (i - 1)))"
proof -
  have "size_t_sub i 1 = i - 1"
    using assms by (intro size_t_sub_pos) auto
  moreover have "i - 1 < length expression"
    using assms(2) by simp
  ultimately show ?thesis
    by (simp only: is_unary_def string_at_def not_less_zero if_False if_True sum.case)
qed

text \<open>At the first character it reads position \<open>2 ^ 64 - 1\<close>.\<close>

lemma lookback_out_of_bounds:
  "length expression < 2 ^ 64 - 1 \<Longrightarrow> is_unary expression 0 = Inl (OutOfBounds (2 ^ 64 - 1))"
  by (simp add: is_unary_def size_t_sub_def string_at_def)

lemma has_lower_precedence_error:
  "has_lower_precedence op t = Inl e \<Longrightarrow> e = KeyNotFound op \<or> e = KeyNotFound t"
  by (auto simp: has_lower_precedence_def operator_properties_at_def
      split: if_splits sum.splits option.splits)

lemma pop_lower_precedence_error:
  "pop_lower_precedence op out ops = Inl e \<Longrightarrow> \<exists>k. e = KeyNotFound k"
proof (induction op out ops rule: pop_lower_precedence.induct)
  case (1 op out)
  then show ?case by simp
next
  case (2 op out t ops)
  then show ?case
    by (auto split: if_splits sum.splits dest: has_lower_precedence_error)
qed

lemma scan_char_in_bounds:
  assumes "i < length expression" and "length expression < 2 ^ 64"
    and "0 < i \<or> expression ! 0 \<in> set ''0123456789.,() ''"
  shows "scan_char expression i st \<noteq> Inl (OutOfBounds pos)"
proof (cases "0 < i")
  case True
  then have "is_unary expression i = Inr (\<not> isdigit (expression ! (i - 1)))"
    using assms(1,2) by (rule lookback_in_bounds)
  then show ?thesis
    using assms(1)
    by (auto simp: scan_char_def string_at_def Let_def
        split: if_splits sum.splits prod.splits dest: pop_lower_precedence_error)
next
  case False
  then have "i = 0" and "expression ! 0 \<in> set ''0123456789.,() ''"
    using assms(3) by auto
  then show ?thesis
    using assms(1)
    by (auto simp: scan_char_def string_at_def isdigit_def Let_def split: prod.splits)
qed

lemma scan_from_in_bounds:
  assumes "length expression < 2 ^ 64"
    and "0 < i \<or> expression ! 0 \<in> set ''0123456789.,() ''"
  shows "scan_from expression i st \<noteq> Inl (OutOfBounds pos)"
  using assms
proof (induction expression i st rule: scan_from.induct)
  case (1 expression i st)
  show ?case
  proof (cases "i < length expression")
    case False
    then show ?thesis by (subst scan_from.simps) simp
  next
    case True
    note c = scan_char_in_bounds [OF True "1.prems"(1) "1.prems"(2), of st pos]
    show ?thesis
    proof (cases "scan_char expression i st")
      case (Inl e)
      then show ?thesis
        using True c by (subst scan_from.simps) simp
    next
      case (Inr st')
      then show ?thesis
        using True "1.IH" [OF True Inr "1.prems"(1)] by (subst scan_from.simps) simp
    qed
  qed
qed

text \<open>
  So every read of the converter is inside the string when the expression is empty or
  starts with a digit, a decimal separator, a parenthesis or a space.
\<close>

lemma infix_to_postfix_in_bounds:
  assumes "length expression < 2 ^ 64"
    and "expression = [] \<or> hd expression \<in> set ''0123456789.,() ''"
  shows "infix_to_postfix expression \<noteq> Inl (OutOfBounds pos)"
proof (cases expression)
  case Nil
  then show ?thesis by (simp add: infix_to_postfix_def scan_from.simps)
next
  case (Cons c rest)
  then have "0 < (0::nat) \<or> expression ! 0 \<in> set ''0123456789.,() ''"
    using assms(2) by simp
  from scan_from_in_bounds [OF assms(1) this]
  show ?thesis
    by (auto simp: infix_to_postfix_def Let_def split: sum.splits)
qed

text \<open>
  Claim C10 says that every index the converter reads is below the length of the string,
  also when the first character is an operator symbol. The code does not keep that: \<open>i\<close> is
  unsigned, the guard \<^verbatim>\<open>i - 1 < 0\<close> is never true, and for any first character \<open>c\<close>
  that is not a digit, a decimal separator, a parenthesis or a space the lookback at
  \<open>i = 0\<close> reads \<open>expression[2 ^ 64 - 1]\<close>, beyond the end of the string.
\<close>

theorem leading_operator_lookback:
  assumes "c \<notin> set ''0123456789.,() ''" and "length (c # rest) < 2 ^ 64 - 1"
  shows "is_unary (c # rest) 0 = Inl (OutOfBounds (2 ^ 64 - 1))
         \<and> infix_to_postfix (c # rest) = Inl (OutOfBounds (2 ^ 64 - 1))"
proof -
  have u: "is_unary (c # rest) 0 = Inl (OutOfBounds (2 ^ 64 - 1))"
    using assms(2) by (rule lookback_out_of_bounds)
  then have "scan_char (c # rest) 0 st = Inl (OutOfBounds (2 ^ 64 - 1))" for st
    using assms(1) by (simp add: scan_char_def string_at_def isdigit_def)
  then have "infix_to_postfix (c # rest) = Inl (OutOfBounds (2 ^ 64 - 1))"
    by (simp add: infix_to_postfix_def scan_from.simps [of _ 0])
  with u show ?thesis by simp
qed

theorem leading_operator_lookback_witness:
  "is_unary ''-3+5'' 0 = Inl (OutOfBounds 18446744073709551615)
   \<and> infix_to_postfix ''-3+5'' = Inl (OutOfBounds 18446744073709551615)"
  using leading_operator_lookback [of "CHR ''-''" "''3+5''"] by simp

text \<open>
  A run that goes on after the read agrees with \<open>evaluate\<close> wherever \<open>evaluate\<close> does not
  stop at that read.
\<close>

lemma is_unary_stray_agrees:
  "is_unary expression i = Inr unary \<Longrightarrow> is_unary_stray stray expression i = unary"
  by (auto simp: is_unary_def is_unary_stray_def split: if_splits sum.splits)

lemma scan_char_stray_agrees:
  assumes "scan_char expression i st = r" and "\<forall>pos. r \<noteq> Inl (OutOfBounds pos)"
  shows "scan_char_stray stray expression i st = r"
proof (cases "is_unary expression i")
  case (Inl e)
  then obtain pos where "e = OutOfBounds pos"
    using is_unary_error by blast
  with Inl assms show ?thesis
    by (auto simp: scan_char_def scan_char_stray_def split: sum.splits if_splits)
next
  case (Inr unary)
  then have "is_unary_stray stray expression i = unary"
    by (rule is_unary_stray_agrees)
  with Inr assms(1) show ?thesis
    by (auto simp: scan_char_def scan_char_stray_def split: sum.splits)
qed

lemma scan_from_stray_agrees:
  assumes "scan_from expression i st = r" and "\<forall>pos. r \<noteq> Inl (OutOfBounds pos)"
  shows "scan_from_stray stray expression i st = r"
  using assms
proof (induction expression i st rule: scan_from.induct)
  case (1 expression i st)
  show ?case
  proof (cases "i < length expression")
    case False
    with "1.prems"(1) show ?thesis
      by (simp add: scan_from.simps [of expression i] scan_from_stray.simps [of _ expression i])
  next
    case True
    show ?thesis
    proof (cases "scan_char expression i st")
      case (Inl e)
      with True "1.prems"(1) have r: "r = Inl e"
        by (simp add: scan_from.simps [of expression i])
      with "1.prems"(2) have "\<forall>pos. Inl e \<noteq> (Inl (OutOfBounds pos) :: error + scan_state)"
        by auto
      with Inl have "scan_char_stray stray expression i st = Inl e"
        by (intro scan_char_stray_agrees) auto
      with True r show ?thesis
        by (simp add: scan_from_stray.simps [of _ expression i])
    next
      case (Inr st')
      then have c: "scan_char_stray stray expression i st = Inr st'"
        by (intro scan_char_stray_agrees) auto
      from True Inr "1.prems"(1) have "scan_from expression (Suc i) st' = r"
        by (simp add: scan_from.simps [of expression i])
      then have "scan_from_stray stray expression (Suc i) st' = r"
        using "1.IH" [OF True Inr] "1.prems"(2) by simp
      with True c show ?thesis
        by (simp add: scan_from_stray.simps [of _ expression i])
    qed
  qed
qed

lemma infix_to_postfix_stray_agrees:
  assumes "infix_to_postfix expression = r" and "\<forall>pos. r \<noteq> Inl (OutOfBounds pos)"
  shows "infix_to_postfix_stray stray expression = r"
proof (cases "scan_from expression 0
    \<lparr>output = [], Operators = [], current_num = [], previous_num = False\<rparr>")
  case (Inl e)
  with assms(1) have "r = Inl e"
    by (simp add: infix_to_postfix_def)
  with assms(2) have "\<forall>pos. Inl e \<noteq> (Inl (OutOfBounds pos) :: error + scan_state)"
    by auto
  with Inl have "scan_from_stray stray expression 0
      \<lparr>output = [], Operators = [], current_num = [], previous_num = False\<rparr> = Inl e"
    by (intro scan_from_stray_agrees) auto
  with \<open>r = Inl e\<close> show ?thesis
    by (simp add: infix_to_postfix_stray_def)
next
  case (Inr st)
  then have "scan_from_stray stray expression 0
      \<lparr>output = [], Operators = [], current_num = [], previous_num = False\<rparr> = Inr st"
    by (intro scan_from_stray_agrees) auto
  with Inr assms(1) show ?thesis
    by (simp add: infix_to_postfix_def infix_to_postfix_stray_def)
qed

lemma evaluate_stray_agrees:
  assumes "evaluate expression = r" and "\<forall>pos. r \<noteq> Inl (OutOfBounds pos)"
  shows "evaluate_stray stray expression = r"
proof (cases "infix_to_postfix expression")
  case (Inl e)
  show ?thesis
  proof (cases "expression = []")
    case True
    with assms(1) show ?thesis
      by (simp add: evaluate_def evaluate_stray_def)
  next
    case False
    with Inl assms(1) have "r = Inl e"
      by (simp add: evaluate_def)
    with assms(2) have "\<forall>pos. Inl e \<noteq> (Inl (OutOfBounds pos) :: error + string list)"
      by auto
    with Inl have "infix_to_postfix_stray stray expression = Inl e"
      by (intro infix_to_postfix_stray_agrees) auto
    with False \<open>r = Inl e\<close> show ?thesis
      by (simp add: evaluate_stray_def)
  qed
next
  case (Inr p)
  then have "infix_to_postfix_stray stray expression = Inr p"
    by (intro infix_to_postfix_stray_agrees) auto
  with Inr assms(1) show ?thesis
    by (auto simp: evaluate_def evaluate_stray_def)
qed

text \<open>
  Were the byte before the string a digit, the leading sign of \<open>-3+5\<close> would be taken for
  a binary operator and the evaluation would fail.
\<close>

lemma evaluate_stray_digit:
  assumes "isdigit stray"
  shows "infix_to_postfix_stray stray ''-3+5'' = Inr [''3'', ''-'', ''5'', ''+'']
         \<and> evaluate_stray stray ''-3+5'' = Inl InsufficientOperands"
  using assms by (simp add: converter_defs evaluator_defs stray_defs)



section \<open>Empty input and white space\<close>

lemma scan_from_spaces:
  "\<forall>j. i \<le> j \<and> j < length expression \<longrightarrow> expression ! j = CHR '' '' \<Longrightarrow>
   scan_from expression i st = Inr st"
proof (induction expression i st rule: scan_from.induct)
  case (1 expression i st)
  show ?case
  proof (cases "i < length expression")
    case True
    then have c: "scan_char expression i st = Inr st"
      using "1.prems" by (simp add: scan_char_def string_at_def isdigit_def)
    have "scan_from expression (Suc i) st = Inr st"
      using "1.IH" [OF True c] "1.prems" by simp
    then show ?thesis
      using True c by (subst scan_from.simps) simp
  next
    case False
    then show ?thesis by (subst scan_from.simps) simp
  qed
qed

text \<open>
  Claim C8 says that \<open>evaluate\<close> fails with \<open>EmptyExpression\<close> on the empty string and on
  every string that yields no token. The code does so on the empty string only: it tests
  \<open>expression.empty()\<close> before the conversion and never tests the postfix stack. A string
  of one or more spaces yields no token, and \<open>evaluate\<close> fails on it with "Invalid
  expression: too many operands".
\<close>

theorem whitespace_only_expression:
  assumes "expression \<noteq> []" and "set expression \<subseteq> {CHR '' ''}"
  shows "evaluate [] = Inl EmptyExpression
         \<and> infix_to_postfix expression = Inr []
         \<and> evaluate expression = Inl MalformedExpression"
proof -
  have "\<forall>j. 0 \<le> j \<and> j < length expression \<longrightarrow> expression ! j = CHR '' ''"
    using assms(2) by (auto simp: subset_iff)
  then have p: "infix_to_postfix expression = Inr []"
    by (simp add: infix_to_postfix_def scan_from_spaces reverse_stack_def)
  then have "evaluate expression = Inl MalformedExpression"
    using assms(1) by (simp add: evaluate_def)
  with p show ?thesis
    by (simp add: evaluate_def)
qed

theorem whitespace_only_expression_witness:
  "evaluate [] = Inl EmptyExpression
   \<and> infix_to_postfix ''   '' = Inr []
   \<and> evaluate ''   '' = Inl MalformedExpression"
  using whitespace_only_expression [of "''   ''"] by simp

text \<open>
  Claim C9 says that spaces inserted outside number literals do not change the outcome
  of \<open>evaluate\<close>. In the code a space before an operator changes it: the lookback finds the
  space instead of the digit, the operator is taken for a unary sign, and \<open>1 + 2\<close> becomes
  the single token \<open>1+2\<close>, of which \<open>std::stod\<close> reads the prefix \<open>1\<close>.
\<close>

theorem space_before_operator:
  "evaluate ''1+2'' = Inr 3
   \<and> infix_to_postfix ''1 + 2'' = Inr [''1+2'']
   \<and> evaluate ''1 + 2'' = Inr 1"
  by (simp add: converter_defs evaluator_defs)

end
